theory Spec2Isabelle
  imports Main "HOL-Library.AList" "HOL-Library.FSet"
begin

section \<open>The voting routes of \<^verbatim>\<open>src/routes/voting.py\<close>\<close>

subsection \<open>Values that arrive in a request\<close>

text \<open>
  The body of a request is what \<^verbatim>\<open>request.get_json()\<close> returns: a Python value built
  from JSON. An object is kept as the list of its items (keys distinct, as in a dict).
  JSON numbers with a fraction (Python floats) are left out of the type.
\<close>

datatype json =
    JNull
  | JBool bool
  | JInt int
  | JStr string
  | JList "json list"
  | JObj "(string \<times> json) list"

text \<open>The exceptions the handlers can meet; every handler turns them into a 500 answer.\<close>

datatype py_exception = AttributeError | TypeError | KeyError | BadRequest

text \<open>
  An answer of a route: status 200 with the payload of the JSON body, status 400 with
  the text under \<^verbatim>\<open>'error'\<close>, or status 500 (the text is \<^verbatim>\<open>str(e)\<close> of the exception).
\<close>

datatype 'a http = Ok200 'a | Err400 string | Err500 py_exception

text \<open>Python's truth value of a JSON value, as \<^verbatim>\<open>not video_id\<close> tests it.\<close>

fun truthy :: "json \<Rightarrow> bool" where
  "truthy JNull = False"
| "truthy (JBool b) = b"
| "truthy (JInt i) = (i \<noteq> 0)"
| "truthy (JStr s) = (s \<noteq> [])"
| "truthy (JList xs) = (xs \<noteq> [])"
| "truthy (JObj kvs) = (kvs \<noteq> [])"

text \<open>\<^verbatim>\<open>d.get(key, default)\<close> on a dict.\<close>

definition dict_get :: "(string \<times> json) list \<Rightarrow> string \<Rightarrow> json \<Rightarrow> json" where
  "dict_get d key dflt = (case map_of d key of None \<Rightarrow> dflt | Some v \<Rightarrow> v)"

text \<open>
  \<^verbatim>\<open>x.get(key, default)\<close> on any value: only a dict has the method, every other value
  raises AttributeError.
\<close>

fun py_get :: "json \<Rightarrow> string \<Rightarrow> json \<Rightarrow> py_exception + json" where
  "py_get (JObj d) key dflt = Inr (dict_get d key dflt)"
| "py_get _ key dflt = Inl AttributeError"

text \<open>
  The key of \<^verbatim>\<open>votes_storage\<close> (a dict with int keys) that a value hashes and compares
  equal to. Lists and dicts are unhashable (TypeError); \<^verbatim>\<open>True\<close> is equal to \<^verbatim>\<open>1\<close> and
  \<^verbatim>\<open>False\<close> to \<^verbatim>\<open>0\<close>; a string or \<^verbatim>\<open>None\<close> is equal to no int.
\<close>

fun hash_key :: "json \<Rightarrow> py_exception + int option" where
  "hash_key (JInt k) = Inr (Some k)"
| "hash_key (JBool b) = Inr (Some (if b then 1 else 0))"
| "hash_key (JStr s) = Inr None"
| "hash_key JNull = Inr None"
| "hash_key (JList xs) = Inl TypeError"
| "hash_key (JObj kvs) = Inl TypeError"

subsection \<open>The request and the store\<close>

text \<open>
  \<^verbatim>\<open>get_json\<close> is \<^verbatim>\<open>None\<close> when \<^verbatim>\<open>request.get_json()\<close> raises, and the parsed body
  otherwise; the two other fields are the entries of \<^verbatim>\<open>request.environ\<close> that
  \<^verbatim>\<open>get_client_ip\<close> reads.
\<close>

record request =
  get_json :: "json option"
  http_x_forwarded_for :: "string option"
  remote_addr :: "string option"

text \<open>
  The two module-level variables. \<^verbatim>\<open>votes_storage\<close> is a dict from video id to count,
  kept in insertion order; \<^verbatim>\<open>voted_ips\<close> is a (finite) set of hashed addresses.
\<close>

record store =
  votes_storage :: "(int \<times> int) list"
  voted_ips :: "string fset"

definition initial_store :: store where
  "initial_store =
     \<lparr>votes_storage = [(1, 0), (2, 0), (3, 0), (4, 0), (5, 0), (6, 0)],
      voted_ips = {||}\<rparr>"

definition required_platforms :: "string list" where
  "required_platforms = [''instagram'', ''linkedin'', ''twitter'']"

text \<open>\<^verbatim>\<open>get_client_ip\<close>: the forwarded address when present, else \<^verbatim>\<open>environ['REMOTE_ADDR']\<close>.\<close>

definition get_client_ip :: "request \<Rightarrow> py_exception + string" where
  "get_client_ip req =
     (case http_x_forwarded_for req of
        None \<Rightarrow> (case remote_addr req of None \<Rightarrow> Inl KeyError | Some a \<Rightarrow> Inr a)
      | Some f \<Rightarrow> Inr f)"

text \<open>
  \<^verbatim>\<open>hash_ip\<close>: the SHA-256 digest of the address in hexadecimal. The digest function is
  the library's and is taken as a parameter \<open>sha256\<close>.
\<close>

definition hash_ip :: "(string \<Rightarrow> string) \<Rightarrow> string \<Rightarrow> string" where
  "hash_ip sha256 ip = sha256 ip"

subsection \<open>\<^verbatim>\<open>submit_vote\<close>\<close>

text \<open>
  The loop over \<^verbatim>\<open>required_platforms\<close>: the first platform whose flag is falsy or absent
  ends the loop (\<open>Some platform\<close>); \<open>None\<close> when the loop runs to its end.
\<close>

fun check_platforms :: "json \<Rightarrow> string list \<Rightarrow> py_exception + string option" where
  "check_platforms social_follows [] = Inr None"
| "check_platforms social_follows (platform # rest) =
     (case py_get social_follows platform (JBool False) of
        Inl e \<Rightarrow> Inl e
      | Inr flag \<Rightarrow>
          if \<not> truthy flag then Inr (Some platform)
          else check_platforms social_follows rest)"

text \<open>
  The body of the \<^verbatim>\<open>try\<close> block, statement by statement. \<open>Inl\<close> is an exception that
  leaves the block; no statement after the two updates of the store can raise, so an
  exception always leaves the store as it was.
\<close>

definition submit_vote_body ::
  "(string \<Rightarrow> string) \<Rightarrow> store \<Rightarrow> request \<Rightarrow> py_exception + (int http \<times> store)" where
  "submit_vote_body sha256 s req =
     (case get_json req of
        None \<Rightarrow> Inl BadRequest
      | Some data \<Rightarrow>
     (case py_get data ''video_id'' JNull of
        Inl e \<Rightarrow> Inl e
      | Inr video_id \<Rightarrow>
     (case py_get data ''social_follows'' (JObj []) of
        Inl e \<Rightarrow> Inl e
      | Inr social_follows \<Rightarrow>
     if \<not> truthy video_id then Inr (Err400 ''Video ID is required'', s)
     else
     (case check_platforms social_follows required_platforms of
        Inl e \<Rightarrow> Inl e
      | Inr (Some platform) \<Rightarrow> Inr (Err400 (''Must follow on '' @ platform), s)
      | Inr None \<Rightarrow>
     (case get_client_ip req of
        Inl e \<Rightarrow> Inl e
      | Inr client_ip \<Rightarrow>
     let ip_hash = hash_ip sha256 client_ip in
     if ip_hash |\<in>| voted_ips s then Inr (Err400 ''You have already voted'', s)
     else
     (case hash_key video_id of
        Inl e \<Rightarrow> Inl e
      | Inr None \<Rightarrow> Inr (Err400 ''Invalid video ID'', s)
      | Inr (Some k) \<Rightarrow>
     (case map_of (votes_storage s) k of
        None \<Rightarrow> Inr (Err400 ''Invalid video ID'', s)
      | Some c \<Rightarrow>
          let s' = s\<lparr>votes_storage := AList.update k (c + 1) (votes_storage s),
                     voted_ips := finsert ip_hash (voted_ips s)\<rparr>
          in (case map_of (votes_storage s') k of
                None \<Rightarrow> Inl KeyError
              | Some n \<Rightarrow> Inr (Ok200 n, s')))))))))"

text \<open>The handler: \<^verbatim>\<open>except Exception\<close> answers 500.\<close>

definition submit_vote ::
  "(string \<Rightarrow> string) \<Rightarrow> store \<Rightarrow> request \<Rightarrow> int http \<times> store" where
  "submit_vote sha256 s req =
     (case submit_vote_body sha256 s req of
        Inl e \<Rightarrow> (Err500 e, s)
      | Inr r \<Rightarrow> r)"

subsection \<open>The read-only routes\<close>

text \<open>\<^verbatim>\<open>get_votes\<close>: the counts and their sum.\<close>

definition get_votes :: "store \<Rightarrow> ((int \<times> int) list \<times> int) http" where
  "get_votes s = Ok200 (votes_storage s, sum_list (map snd (votes_storage s)))"

text \<open>\<^verbatim>\<open>check_voted\<close>: whether the hashed address of the caller is in \<^verbatim>\<open>voted_ips\<close>.\<close>

definition check_voted :: "(string \<Rightarrow> string) \<Rightarrow> store \<Rightarrow> request \<Rightarrow> bool http" where
  "check_voted sha256 s req =
     (case get_client_ip req of
        Inl e \<Rightarrow> Err500 e
      | Inr client_ip \<Rightarrow> Ok200 (hash_ip sha256 client_ip |\<in>| voted_ips s))"

text \<open>\<^verbatim>\<open>verify_social_follows\<close>: answers the platforms it was sent.\<close>

definition verify_social_follows :: "request \<Rightarrow> json http" where
  "verify_social_follows req =
     (case get_json req of
        None \<Rightarrow> Err500 BadRequest
      | Some data \<Rightarrow>
          (case py_get data ''platforms'' (JObj []) of
             Inl e \<Rightarrow> Err500 e
           | Inr platforms \<Rightarrow> Ok200 platforms))"

text \<open>
  \<^verbatim>\<open>get_analytics\<close>. A percentage is the int \<^verbatim>\<open>0\<close> when there is no vote and otherwise
  the float \<^verbatim>\<open>round(count / total_votes * 100, 1)\<close>; the float computation is taken as a
  parameter \<open>pct\<close> of the count and the total.
\<close>

datatype 'f pynum = PyInt int | PyFloat 'f

record 'f analytics =
  total_votes :: int
  vote_counts :: "(int \<times> int) list"
  vote_percentages :: "(int \<times> 'f pynum) list"
  total_participants :: int
  videos_count :: int

definition get_analytics :: "(int \<Rightarrow> int \<Rightarrow> 'f) \<Rightarrow> store \<Rightarrow> 'f analytics http" where
  "get_analytics pct s =
     (let total = sum_list (map snd (votes_storage s)) in
      Ok200 \<lparr>total_votes = total,
             vote_counts = votes_storage s,
             vote_percentages =
               map (\<lambda>(video_id, count).
                      (video_id, if total > 0 then PyFloat (pct count total) else PyInt 0))
                   (votes_storage s),
             total_participants = int (fcard (voted_ips s)),
             videos_count = int (length (votes_storage s))\<rparr>)"

subsection \<open>Sequences of requests\<close>

datatype call =
    SubmitVote request
  | GetVotes
  | CheckVoted request
  | VerifySocialFollows request
  | GetAnalytics

text \<open>The store after one call: only \<^verbatim>\<open>submit_vote\<close> writes to it.\<close>

fun step :: "(string \<Rightarrow> string) \<Rightarrow> store \<Rightarrow> call \<Rightarrow> store" where
  "step sha256 s (SubmitVote req) = snd (submit_vote sha256 s req)"
| "step sha256 s GetVotes = s"
| "step sha256 s (CheckVoted req) = s"
| "step sha256 s (VerifySocialFollows req) = s"
| "step sha256 s GetAnalytics = s"

fun run :: "(string \<Rightarrow> string) \<Rightarrow> store \<Rightarrow> call list \<Rightarrow> store" where
  "run sha256 s [] = s"
| "run sha256 s (c # cs) = run sha256 (step sha256 s c) cs"

text \<open>
  The invariant of the store: the keys of \<^verbatim>\<open>votes_storage\<close> are distinct (it is a
  dict) and the counts add up to the number of hashed addresses in \<^verbatim>\<open>voted_ips\<close>.
\<close>

definition store_inv :: "store \<Rightarrow> bool" where
  "store_inv s \<longleftrightarrow>
     distinct (map fst (votes_storage s)) \<and>
     sum_list (map snd (votes_storage s)) = int (fcard (voted_ips s))"

subsection \<open>Requests used as examples\<close>

text \<open>The truth value of \<^verbatim>\<open>social_follows.get(platform, False)\<close> on a dict.\<close>

abbreviation flag_set :: "(string \<times> json) list \<Rightarrow> string \<Rightarrow> bool" where
  "flag_set follows platform \<equiv> truthy (dict_get follows platform (JBool False))"

text \<open>A \<^verbatim>\<open>social_follows\<close> object with the three flags set.\<close>

definition all_follows :: json where
  "all_follows =
     JObj [(''instagram'', JBool True), (''linkedin'', JBool True), (''twitter'', JBool True)]"

text \<open>
  A well-formed vote: a JSON object with \<^verbatim>\<open>video_id\<close> and \<^verbatim>\<open>social_follows\<close>, sent
  from the address \<open>ip\<close> with no forwarding header.
\<close>

definition vote_request :: "json \<Rightarrow> json \<Rightarrow> string \<Rightarrow> request" where
  "vote_request video_id social_follows ip =
     \<lparr>get_json = Some (JObj [(''video_id'', video_id), (''social_follows'', social_follows)]),
      http_x_forwarded_for = None,
      remote_addr = Some ip\<rparr>"

section \<open>Properties\<close>

subsection \<open>What one vote does to the store\<close>

lemma sum_list_update:
  fixes d :: "(int \<times> int) list"
  shows "distinct (map fst d) \<Longrightarrow> map_of d k = Some c \<Longrightarrow>
   sum_list (map snd (AList.update k v d)) = sum_list (map snd d) - c + v"
proof (induction d)
  case Nil
  then show ?case by simp
next
  case (Cons a d)
  obtain j w where a: "a = (j, w)" by (cases a)
  show ?case
  proof (cases "j = k")
    case True
    with Cons.prems a have "w = c" by simp
    with True a show ?thesis by simp
  next
    case False
    with Cons a show ?thesis by simp
  qed
qed

lemma submit_vote_unchanged_or_voted:
  "submit_vote sha256 s req = (r, s') \<Longrightarrow>
   s' = s \<or>
   (\<exists>k c ip. map_of (votes_storage s) k = Some c \<and> get_client_ip req = Inr ip \<and>
      hash_ip sha256 ip |\<notin>| voted_ips s \<and> r = Ok200 (c + 1) \<and>
      s' = s\<lparr>votes_storage := AList.update k (c + 1) (votes_storage s),
              voted_ips := finsert (hash_ip sha256 ip) (voted_ips s)\<rparr>)"
  unfolding submit_vote_def submit_vote_body_def
  by (auto simp: Let_def AList.update_conv' split: option.splits sum.splits if_splits)

lemma keys_submit_vote:
  "map fst (votes_storage (snd (submit_vote sha256 s req))) = map fst (votes_storage s)"
proof -
  obtain r s' where rs: "submit_vote sha256 s req = (r, s')"
    by (cases "submit_vote sha256 s req")
  from submit_vote_unchanged_or_voted [OF rs] show ?thesis
    using rs by (force simp: AList.update_keys dest!: map_of_SomeD)
qed

lemma keys_step: "map fst (votes_storage (step sha256 s c)) = map fst (votes_storage s)"
  by (cases c) (simp_all add: keys_submit_vote)

lemma keys_run: "map fst (votes_storage (run sha256 s cs)) = map fst (votes_storage s)"
  by (induction cs arbitrary: s) (simp_all add: keys_step)

lemma keys_reachable:
  "map fst (votes_storage (run sha256 initial_store cs)) = [1, 2, 3, 4, 5, 6]"
  by (simp add: keys_run) (simp add: initial_store_def)

lemma registered_nonzero:
  "map_of (votes_storage (run sha256 initial_store cs)) k = Some c \<Longrightarrow> k \<noteq> 0"
proof -
  assume "map_of (votes_storage (run sha256 initial_store cs)) k = Some c"
  then have "k \<in> set (map fst (votes_storage (run sha256 initial_store cs)))"
    by (metis map_of_eq_None_iff option.distinct(1) set_map)
  then show "k \<noteq> 0" by (simp only: keys_reachable) auto
qed

lemma check_platforms_dict:
  "check_platforms (JObj follows) required_platforms =
     Inr (if \<not> flag_set follows ''instagram'' then Some ''instagram''
          else if \<not> flag_set follows ''linkedin'' then Some ''linkedin''
          else if \<not> flag_set follows ''twitter'' then Some ''twitter''
          else None)"
  by (simp add: required_platforms_def)

lemmas eval_defs =
  submit_vote_def submit_vote_body_def vote_request_def all_follows_def initial_store_def
  required_platforms_def get_client_ip_def hash_ip_def dict_get_def Let_def

subsection \<open>The counts and the voters\<close>

lemma store_inv_initial: "store_inv initial_store"
  by (simp add: store_inv_def initial_store_def)

lemma store_inv_submit_vote:
  assumes "store_inv s"
  shows "store_inv (snd (submit_vote sha256 s req))"
proof -
  obtain r s' where rs: "submit_vote sha256 s req = (r, s')"
    by (cases "submit_vote sha256 s req")
  from submit_vote_unchanged_or_voted [OF rs] show ?thesis
  proof
    assume "s' = s"
    with rs assms show ?thesis by simp
  next
    assume "\<exists>k c ip. map_of (votes_storage s) k = Some c \<and> get_client_ip req = Inr ip \<and>
      hash_ip sha256 ip |\<notin>| voted_ips s \<and> r = Ok200 (c + 1) \<and>
      s' = s\<lparr>votes_storage := AList.update k (c + 1) (votes_storage s),
              voted_ips := finsert (hash_ip sha256 ip) (voted_ips s)\<rparr>"
    then obtain k c ip where
      kc: "map_of (votes_storage s) k = Some c" and
      new: "hash_ip sha256 ip |\<notin>| voted_ips s" and
      s': "s' = s\<lparr>votes_storage := AList.update k (c + 1) (votes_storage s),
              voted_ips := finsert (hash_ip sha256 ip) (voted_ips s)\<rparr>"
      by blast
    from assms have d: "distinct (map fst (votes_storage s))"
      and sm: "sum_list (map snd (votes_storage s)) = int (fcard (voted_ips s))"
      by (simp_all add: store_inv_def)
    have "sum_list (map snd (votes_storage s')) = sum_list (map snd (votes_storage s)) + 1"
      using sum_list_update [OF d kc, of "c + 1"] s' by simp
    moreover have "fcard (voted_ips s') = Suc (fcard (voted_ips s))"
      using new s' by (simp add: fcard_finsert_disjoint)
    moreover have "distinct (map fst (votes_storage s'))"
      using d s' by (simp add: AList.distinct_update)
    ultimately have "store_inv s'"
      using sm by (simp add: store_inv_def)
    with rs show ?thesis by simp
  qed
qed

lemma store_inv_step: "store_inv s \<Longrightarrow> store_inv (step sha256 s c)"
  by (cases c) (simp_all add: store_inv_submit_vote)

lemma store_inv_run: "store_inv s \<Longrightarrow> store_inv (run sha256 s cs)"
  by (induction cs arbitrary: s) (simp_all add: store_inv_step)

text \<open>
  Claim C1. Starting from the initial store (all counts zero, no voter), after any
  sequence of calls the counts of \<^verbatim>\<open>votes_storage\<close> add up to the number of members of
  \<^verbatim>\<open>voted_ips\<close>, and \<^verbatim>\<open>get_analytics\<close> answers with \<^verbatim>\<open>total_votes\<close> equal to
  \<^verbatim>\<open>total_participants\<close>. The sequence is arbitrary, so this holds after each of its
  calls.
\<close>

theorem votes_sum_eq_participants:
  "sum_list (map snd (votes_storage (run sha256 initial_store cs)))
     = int (fcard (voted_ips (run sha256 initial_store cs)))
   \<and> (\<exists>a. get_analytics pct (run sha256 initial_store cs) = Ok200 a
          \<and> total_votes a = total_participants a)"
proof -
  have "store_inv (run sha256 initial_store cs)"
    by (rule store_inv_run [OF store_inv_initial])
  then have "sum_list (map snd (votes_storage (run sha256 initial_store cs)))
     = int (fcard (voted_ips (run sha256 initial_store cs)))"
    by (simp add: store_inv_def)
  then show ?thesis
    by (simp add: get_analytics_def Let_def)
qed

subsection \<open>A vote that is accepted\<close>

text \<open>
  Claim C2. In a store reached from the initial one, a vote whose \<^verbatim>\<open>video_id\<close> is a key
  of \<^verbatim>\<open>votes_storage\<close>, with the three flags set, from an address whose hash is not in
  \<^verbatim>\<open>voted_ips\<close>, is accepted: the answer carries the old count plus one, which is the new
  count of that video; every other count and the order of the keys are unchanged; the
  hash is added to \<^verbatim>\<open>voted_ips\<close>.
\<close>

theorem submit_vote_success:
  assumes "s = run sha256 initial_store cs"
    and "get_json req = Some (JObj data)"
    and "dict_get data ''video_id'' JNull = video_id"
    and "hash_key video_id = Inr (Some k)"
    and "map_of (votes_storage s) k = Some c"
    and "dict_get data ''social_follows'' (JObj []) = JObj follows"
    and "flag_set follows ''instagram''"
    and "flag_set follows ''linkedin''"
    and "flag_set follows ''twitter''"
    and "get_client_ip req = Inr ip"
    and "hash_ip sha256 ip |\<notin>| voted_ips s"
  shows "\<exists>s'. submit_vote sha256 s req = (Ok200 (c + 1), s')
           \<and> map_of (votes_storage s') k = Some (c + 1)
           \<and> (\<forall>j. j \<noteq> k \<longrightarrow> map_of (votes_storage s') j = map_of (votes_storage s) j)
           \<and> map fst (votes_storage s') = map fst (votes_storage s)
           \<and> voted_ips s' = finsert (hash_ip sha256 ip) (voted_ips s)"
proof -
  from assms(1,5) have "k \<noteq> 0"
    using registered_nonzero by blast
  with assms(4) have t: "truthy video_id"
    by (cases video_id) (auto split: if_splits)
  let ?s' = "s\<lparr>votes_storage := AList.update k (c + 1) (votes_storage s),
                voted_ips := finsert (hash_ip sha256 ip) (voted_ips s)\<rparr>"
  have "submit_vote sha256 s req = (Ok200 (c + 1), ?s')"
    using assms(2-11) t
    by (simp add: submit_vote_def submit_vote_body_def check_platforms_dict Let_def
        AList.update_conv')
  moreover have "map fst (votes_storage ?s') = map fst (votes_storage s)"
    using assms(5) by (force simp: AList.update_keys dest!: map_of_SomeD)
  ultimately show ?thesis
    by (simp add: AList.update_conv')
qed

theorem submit_vote_success_witness:
  "initial_store = run id initial_store []
   \<and> hash_key (JInt 3) = Inr (Some 3)
   \<and> map_of (votes_storage initial_store) 3 = Some 0
   \<and> hash_ip id ''10.0.0.1'' |\<notin>| voted_ips initial_store
   \<and> (\<exists>s'. submit_vote id initial_store (vote_request (JInt 3) all_follows ''10.0.0.1'')
              = (Ok200 (0 + 1), s')
          \<and> map_of (votes_storage s') 3 = Some (0 + 1)
          \<and> (\<forall>j. j \<noteq> 3 \<longrightarrow> map_of (votes_storage s') j = map_of (votes_storage initial_store) j)
          \<and> map fst (votes_storage s') = map fst (votes_storage initial_store)
          \<and> voted_ips s' = finsert (hash_ip id ''10.0.0.1'') (voted_ips initial_store))"
  using submit_vote_success
    [of initial_store id "[]" "vote_request (JInt 3) all_follows ''10.0.0.1''"
        "[(''video_id'', JInt 3), (''social_follows'', all_follows)]" "JInt 3" 3 0
        "[(''instagram'', JBool True), (''linkedin'', JBool True), (''twitter'', JBool True)]"
        "''10.0.0.1''"]
  by (simp add: vote_request_def all_follows_def initial_store_def get_client_ip_def
      hash_ip_def dict_get_def)

subsection \<open>Votes that are refused\<close>

text \<open>
  Claim C4, as the code has it. A vote whose \<^verbatim>\<open>video_id\<close> is truthy and hashable but no
  key of \<^verbatim>\<open>votes_storage\<close> is answered \<^verbatim>\<open>Invalid video ID\<close>, with the store unchanged,
  when the three flags are set and the hash of the address is not in \<^verbatim>\<open>voted_ips\<close>.
\<close>

theorem invalid_video_id:
  assumes "get_json req = Some (JObj data)"
    and "dict_get data ''video_id'' JNull = video_id"
    and "truthy video_id"
    and "hash_key video_id = Inr None
         \<or> (\<exists>k. hash_key video_id = Inr (Some k) \<and> map_of (votes_storage s) k = None)"
    and "dict_get data ''social_follows'' (JObj []) = JObj follows"
    and "flag_set follows ''instagram''"
    and "flag_set follows ''linkedin''"
    and "flag_set follows ''twitter''"
    and "get_client_ip req = Inr ip"
    and "hash_ip sha256 ip |\<notin>| voted_ips s"
  shows "submit_vote sha256 s req = (Err400 ''Invalid video ID'', s)"
  using assms
  by (auto simp: submit_vote_def submit_vote_body_def check_platforms_dict)

theorem invalid_video_id_witness:
  "truthy (JInt 99)
   \<and> hash_key (JInt 99) = Inr (Some 99)
   \<and> map_of (votes_storage initial_store) 99 = None
   \<and> hash_ip id ''10.0.0.1'' |\<notin>| voted_ips initial_store
   \<and> submit_vote id initial_store (vote_request (JInt 99) all_follows ''10.0.0.1'')
      = (Err400 ''Invalid video ID'', initial_store)"
  using invalid_video_id
    [of "vote_request (JInt 99) all_follows ''10.0.0.1''"
        "[(''video_id'', JInt 99), (''social_follows'', all_follows)]" "JInt 99"
        initial_store
        "[(''instagram'', JBool True), (''linkedin'', JBool True), (''twitter'', JBool True)]"
        "''10.0.0.1''" id]
  by (simp add: vote_request_def all_follows_def initial_store_def get_client_ip_def
      hash_ip_def dict_get_def)

text \<open>
  The answer for an unknown video does depend on the flags and on \<^verbatim>\<open>voted_ips\<close>: both
  are tested first. Video 99 with no flag is answered \<^verbatim>\<open>Must follow on instagram\<close>, and
  video 99 from an address that has voted is answered \<^verbatim>\<open>You have already voted\<close>.
\<close>

theorem invalid_video_id_regardless_counterexample:
  "map_of (votes_storage initial_store) 99 = None
   \<and> fst (submit_vote id initial_store (vote_request (JInt 99) (JObj []) ''10.0.0.1''))
      = Err400 ''Must follow on instagram''
   \<and> hash_ip id ''10.0.0.1''
       |\<in>| voted_ips (snd (submit_vote id initial_store
                            (vote_request (JInt 3) all_follows ''10.0.0.1'')))
   \<and> fst (submit_vote id
            (snd (submit_vote id initial_store (vote_request (JInt 3) all_follows ''10.0.0.1'')))
            (vote_request (JInt 99) all_follows ''10.0.0.1''))
      = Err400 ''You have already voted''
   \<and> Err400 ''Must follow on instagram'' \<noteq> (Err400 ''Invalid video ID'' :: int http)
   \<and> Err400 ''You have already voted'' \<noteq> (Err400 ''Invalid video ID'' :: int http)"
  by (simp add: eval_defs)

text \<open>
  Claim C5, as the code has it. A vote whose body is a JSON object with a truthy
  \<^verbatim>\<open>video_id\<close> and whose \<^verbatim>\<open>social_follows\<close> is a dict (or is absent from the body, which
  stands for the empty dict) in which a required flag is falsy or absent is answered
  \<^verbatim>\<open>Must follow on\<close> followed by the first such platform in the order instagram,
  linkedin, twitter, with the store unchanged; an absent flag counts as a false one.
\<close>

theorem missing_requirement:
  assumes "get_json req = Some (JObj data)"
    and "truthy (dict_get data ''video_id'' JNull)"
    and "dict_get data ''social_follows'' (JObj []) = JObj follows"
    and "\<not> flag_set follows ''instagram'' \<or> \<not> flag_set follows ''linkedin''
         \<or> \<not> flag_set follows ''twitter''"
  shows "submit_vote sha256 s req =
           (Err400 (''Must follow on '' @
              (if \<not> flag_set follows ''instagram'' then ''instagram''
               else if \<not> flag_set follows ''linkedin'' then ''linkedin''
               else ''twitter'')), s)
         \<and> (\<forall>p. map_of follows p = None \<or> map_of follows p = Some (JBool False)
                \<longrightarrow> \<not> flag_set follows p)"
  using assms
  by (auto simp: submit_vote_def submit_vote_body_def check_platforms_dict dict_get_def)

theorem missing_requirement_witness:
  "truthy (JInt 3)
   \<and> \<not> flag_set [(''instagram'', JBool True), (''twitter'', JBool False)] ''linkedin''
   \<and> submit_vote id initial_store
        (vote_request (JInt 3)
           (JObj [(''instagram'', JBool True), (''twitter'', JBool False)]) ''10.0.0.1'')
      = (Err400 ''Must follow on linkedin'', initial_store)"
  using missing_requirement
    [of "vote_request (JInt 3)
           (JObj [(''instagram'', JBool True), (''twitter'', JBool False)]) ''10.0.0.1''"
        "[(''video_id'', JInt 3),
          (''social_follows'', JObj [(''instagram'', JBool True), (''twitter'', JBool False)])]"
        "[(''instagram'', JBool True), (''twitter'', JBool False)]"
        id initial_store]
  by (simp add: vote_request_def dict_get_def)

text \<open>
  With a falsy or absent \<^verbatim>\<open>video_id\<close> the flags are never looked at: a vote with no
  flag at all is then answered \<^verbatim>\<open>Video ID is required\<close>, which names no platform.
  And when \<^verbatim>\<open>social_follows\<close> is present but not a dict (\<^verbatim>\<open>null\<close>, a list), every flag is
  absent, yet \<^verbatim>\<open>social_follows.get\<close> raises AttributeError and the answer is the 500 one,
  for a truthy \<^verbatim>\<open>video_id\<close> too.
\<close>

theorem missing_requirement_any_id_counterexample:
  "(\<not> flag_set [] ''instagram'' \<and> \<not> flag_set [] ''linkedin'' \<and> \<not> flag_set [] ''twitter'')
   \<and> submit_vote id initial_store (vote_request (JInt 0) (JObj []) ''10.0.0.1'')
      = (Err400 ''Video ID is required'', initial_store)
   \<and> submit_vote id initial_store
        \<lparr>get_json = Some (JObj []), http_x_forwarded_for = None, remote_addr = Some ''10.0.0.1''\<rparr>
      = (Err400 ''Video ID is required'', initial_store)
   \<and> truthy (JInt 3)
   \<and> submit_vote id initial_store (vote_request (JInt 3) JNull ''10.0.0.1'')
      = (Err500 AttributeError, initial_store)
   \<and> submit_vote id initial_store (vote_request (JInt 3) (JList []) ''10.0.0.1'')
      = (Err500 AttributeError, initial_store)
   \<and> Err400 ''Video ID is required'' \<noteq> (Err400 (''Must follow on '' @ ''instagram'') :: int http)
   \<and> Err400 ''Video ID is required'' \<noteq> (Err400 (''Must follow on '' @ ''linkedin'') :: int http)
   \<and> Err400 ''Video ID is required'' \<noteq> (Err400 (''Must follow on '' @ ''twitter'') :: int http)"
  by (simp add: eval_defs)

text \<open>
  Claim C6. A vote that is not accepted (any answer other than the 200 one) leaves the
  store as it was: the same counts and the same members of \<^verbatim>\<open>voted_ips\<close>.
\<close>

theorem submit_vote_failure_keeps_store:
  assumes "submit_vote sha256 s req = (r, s')" and "\<forall>n. r \<noteq> Ok200 n"
  shows "s' = s \<and> votes_storage s' = votes_storage s \<and> voted_ips s' = voted_ips s"
  using submit_vote_unchanged_or_voted [OF assms(1)] assms(2) by auto

theorem submit_vote_failure_keeps_store_witness:
  "submit_vote id initial_store (vote_request (JInt 99) all_follows ''10.0.0.1'')
     = (Err400 ''Invalid video ID'', initial_store)
   \<and> (\<forall>n. Err400 ''Invalid video ID'' \<noteq> Ok200 n)
   \<and> votes_storage initial_store = votes_storage initial_store"
  using submit_vote_failure_keeps_store
    [of id initial_store "vote_request (JInt 99) all_follows ''10.0.0.1''"
        "Err400 ''Invalid video ID''" initial_store]
  by (simp add: eval_defs)

text \<open>
  Claim C7, as the code has it. A vote with the three flags set from an address whose
  hash is in \<^verbatim>\<open>voted_ips\<close> is answered \<^verbatim>\<open>You have already voted\<close> for every truthy
  \<^verbatim>\<open>video_id\<close>, a key of \<^verbatim>\<open>votes_storage\<close> or not, with the store unchanged.
\<close>

theorem already_voted:
  assumes "get_json req = Some (JObj data)"
    and "truthy (dict_get data ''video_id'' JNull)"
    and "dict_get data ''social_follows'' (JObj []) = JObj follows"
    and "flag_set follows ''instagram''"
    and "flag_set follows ''linkedin''"
    and "flag_set follows ''twitter''"
    and "get_client_ip req = Inr ip"
    and "hash_ip sha256 ip |\<in>| voted_ips s"
  shows "submit_vote sha256 s req = (Err400 ''You have already voted'', s)"
  using assms
  by (simp add: submit_vote_def submit_vote_body_def check_platforms_dict)

theorem already_voted_witness:
  "hash_ip id ''10.0.0.1'' |\<in>| voted_ips (initial_store\<lparr>voted_ips := {|''10.0.0.1''|}\<rparr>)
   \<and> submit_vote id (initial_store\<lparr>voted_ips := {|''10.0.0.1''|}\<rparr>)
        (vote_request (JInt 99) all_follows ''10.0.0.1'')
      = (Err400 ''You have already voted'', initial_store\<lparr>voted_ips := {|''10.0.0.1''|}\<rparr>)"
  using already_voted
    [of "vote_request (JInt 99) all_follows ''10.0.0.1''"
        "[(''video_id'', JInt 99), (''social_follows'', all_follows)]"
        "[(''instagram'', JBool True), (''linkedin'', JBool True), (''twitter'', JBool True)]"
        "''10.0.0.1''" id "initial_store\<lparr>voted_ips := {|''10.0.0.1''|}\<rparr>"]
  by (simp add: vote_request_def all_follows_def get_client_ip_def hash_ip_def dict_get_def)

text \<open>
  For the video id 0 the answer is another one: after the address has voted for video 3,
  its vote for video 0 is answered \<^verbatim>\<open>Video ID is required\<close>.
\<close>

theorem already_voted_any_id_counterexample:
  "hash_ip id ''10.0.0.1''
     |\<in>| voted_ips (snd (submit_vote id initial_store
                            (vote_request (JInt 3) all_follows ''10.0.0.1'')))
   \<and> fst (submit_vote id
            (snd (submit_vote id initial_store (vote_request (JInt 3) all_follows ''10.0.0.1'')))
            (vote_request (JInt 0) all_follows ''10.0.0.1''))
      = Err400 ''Video ID is required''
   \<and> Err400 ''Video ID is required'' \<noteq> (Err400 ''You have already voted'' :: int http)"
  by (simp add: eval_defs)

text \<open>
  Claim C10. A vote whose \<^verbatim>\<open>video_id\<close> is absent or falsy is answered
  \<^verbatim>\<open>Video ID is required\<close>, a text no other refusal uses, whatever the flags, the address
  and the keys of \<^verbatim>\<open>votes_storage\<close> are, and the store is unchanged. The store is
  arbitrary here, so a video registered under the key 0 could not be voted for.
\<close>

theorem missing_video_id:
  assumes "get_json req = Some (JObj data)"
    and "\<not> truthy (dict_get data ''video_id'' JNull)"
  shows "submit_vote sha256 s req = (Err400 ''Video ID is required'', s)
         \<and> Err400 ''Video ID is required'' \<noteq> (Err400 ''Invalid video ID'' :: int http)
         \<and> Err400 ''Video ID is required'' \<noteq> (Err400 ''You have already voted'' :: int http)
         \<and> (\<forall>p. Err400 ''Video ID is required'' \<noteq> (Err400 (''Must follow on '' @ p) :: int http))"
  using assms by (simp add: submit_vote_def submit_vote_body_def)

theorem missing_video_id_witness:
  "\<not> truthy (dict_get [(''video_id'', JInt 0), (''social_follows'', all_follows)] ''video_id'' JNull)
   \<and> map_of [(0, 7), (1, 0)] (0::int) = Some (7::int)
   \<and> submit_vote id \<lparr>votes_storage = [(0, 7), (1, 0)], voted_ips = {||}\<rparr>
        (vote_request (JInt 0) all_follows ''10.0.0.1'')
      = (Err400 ''Video ID is required'', \<lparr>votes_storage = [(0, 7), (1, 0)], voted_ips = {||}\<rparr>)"
  using missing_video_id
    [of "vote_request (JInt 0) all_follows ''10.0.0.1''"
        "[(''video_id'', JInt 0), (''social_follows'', all_follows)]"
        id "\<lparr>votes_storage = [(0, 7), (1, 0)], voted_ips = {||}\<rparr>"]
  by (simp add: vote_request_def dict_get_def)

subsection \<open>The store only grows\<close>

lemma submit_vote_voted_ips_grows:
  "voted_ips s |\<subseteq>| voted_ips (snd (submit_vote sha256 s req))"
proof -
  obtain r s' where rs: "submit_vote sha256 s req = (r, s')"
    by (cases "submit_vote sha256 s req")
  from submit_vote_unchanged_or_voted [OF rs] show ?thesis
    using rs by auto
qed

lemma submit_vote_count_grows:
  assumes "map_of (votes_storage s) k = Some c"
  shows "\<exists>c'. map_of (votes_storage (snd (submit_vote sha256 s req))) k = Some c' \<and> c \<le> c'"
proof -
  obtain r s' where rs: "submit_vote sha256 s req = (r, s')"
    by (cases "submit_vote sha256 s req")
  from submit_vote_unchanged_or_voted [OF rs] show ?thesis
    using rs assms by (auto simp: AList.update_conv')
qed

lemma step_voted_ips_grows: "voted_ips s |\<subseteq>| voted_ips (step sha256 s c)"
  by (cases c) (simp_all add: submit_vote_voted_ips_grows)

lemma step_count_grows:
  "map_of (votes_storage s) k = Some n \<Longrightarrow>
   \<exists>n'. map_of (votes_storage (step sha256 s c)) k = Some n' \<and> n \<le> n'"
  by (cases c) (simp_all add: submit_vote_count_grows)

lemma run_voted_ips_grows: "voted_ips s |\<subseteq>| voted_ips (run sha256 s cs)"
proof (induction cs arbitrary: s)
  case Nil
  show ?case by simp
next
  case (Cons c cs)
  have "voted_ips s |\<subseteq>| voted_ips (step sha256 s c)"
    by (rule step_voted_ips_grows)
  also have "\<dots> |\<subseteq>| voted_ips (run sha256 (step sha256 s c) cs)"
    by (rule Cons.IH)
  finally show ?case by simp
qed

lemma run_count_grows:
  "map_of (votes_storage s) k = Some n \<Longrightarrow>
   \<exists>n'. map_of (votes_storage (run sha256 s cs)) k = Some n' \<and> n \<le> n'"
proof (induction cs arbitrary: s n)
  case Nil
  then show ?case by simp
next
  case (Cons c cs)
  from step_count_grows [OF Cons.prems] obtain m where
    m: "map_of (votes_storage (step sha256 s c)) k = Some m" and nm: "n \<le> m"
    by blast
  from Cons.IH [OF m] obtain n' where
    "map_of (votes_storage (run sha256 (step sha256 s c) cs)) k = Some n'" and "m \<le> n'"
    by blast
  with nm show ?case by auto
qed

text \<open>
  Claim C9. Over any sequence of calls from any store, \<^verbatim>\<open>voted_ips\<close> keeps all its
  members and no count of \<^verbatim>\<open>votes_storage\<close> gets smaller or loses its key; the calls of
  \<^verbatim>\<open>check_voted\<close>, \<^verbatim>\<open>get_votes\<close> and \<^verbatim>\<open>get_analytics\<close> leave the store as it is.
\<close>

theorem store_only_grows:
  "voted_ips s |\<subseteq>| voted_ips (run sha256 s cs)
   \<and> (\<forall>k n. map_of (votes_storage s) k = Some n \<longrightarrow>
         (\<exists>n'. map_of (votes_storage (run sha256 s cs)) k = Some n' \<and> n \<le> n'))
   \<and> step sha256 s (CheckVoted req) = s
   \<and> step sha256 s GetVotes = s
   \<and> step sha256 s GetAnalytics = s"
  using run_voted_ips_grows [of s sha256 cs] run_count_grows [of s _ _ sha256 cs]
  by simp

theorem store_only_grows_witness:
  "map_of (votes_storage initial_store) 3 = Some 0
   \<and> voted_ips initial_store
       |\<subseteq>| voted_ips (run id initial_store
            [SubmitVote (vote_request (JInt 3) all_follows ''10.0.0.1''), GetAnalytics,
             SubmitVote (vote_request (JInt 3) all_follows ''10.0.0.2'')])
   \<and> (\<exists>n'. map_of (votes_storage (run id initial_store
            [SubmitVote (vote_request (JInt 3) all_follows ''10.0.0.1''), GetAnalytics,
             SubmitVote (vote_request (JInt 3) all_follows ''10.0.0.2'')])) 3 = Some n'
          \<and> 0 \<le> n')"
proof -
  have h: "map_of (votes_storage initial_store) 3 = Some 0"
    by (simp add: initial_store_def)
  from store_only_grows [of initial_store id
      "[SubmitVote (vote_request (JInt 3) all_follows ''10.0.0.1''), GetAnalytics,
        SubmitVote (vote_request (JInt 3) all_follows ''10.0.0.2'')]"]
  show ?thesis using h by blast
qed

end
